theory Spec2Isabelle
  imports Complex_Main "HOL-Library.AList"
begin

section \<open>Conventions of the embedding\<close>

text \<open>
  The development embeds the scoring and structuring core of the repository:
  \<^verbatim>\<open>agents/context_validation_agent.py\<close>, \<^verbatim>\<open>agents/code_quality_agent.py\<close> and
  \<^verbatim>\<open>agents/master_agent.py\<close>.

  \<^item> A Python \<^verbatim>\<open>float\<close> is a \<^typ>\<open>real\<close>: arithmetic is exact, IEEE rounding is not
    modelled.
  \<^item> A Python \<^verbatim>\<open>str\<close> is a \<^typ>\<open>string\<close> of ASCII characters.
  \<^item> A \<^verbatim>\<open>dict\<close> is an association list in insertion order; assignment to a key is
    \<^const>\<open>AList.update\<close> (replace in place, or append).
  \<^item> An exception is a value of \<open>py_error\<close>; a function that can raise returns
    \<open>py_error + 'a\<close>.
\<close>

datatype py_error =
    AttributeError string
  | UnboundLocalError string
  | KeyError string
  | TypeError string
  | OtherError string

text \<open>\<^verbatim>\<open>str(e)\<close> for the exceptions above (CPython 3.11 wording).\<close>

fun error_str :: "py_error \<Rightarrow> string" where
  "error_str (AttributeError m) = m"
| "error_str (UnboundLocalError v) =
     ''cannot access local variable '' @ [CHR 0x27] @ v @ [CHR 0x27] @
     '' where it is not associated with a value''"
| "error_str (KeyError k) = [CHR 0x27] @ k @ [CHR 0x27]"
| "error_str (TypeError m) = m"
| "error_str (OtherError m) = m"

section \<open>String helpers\<close>

text \<open>The ASCII characters for which \<^verbatim>\<open>str.isspace\<close> holds; \<^verbatim>\<open>str.split()\<close> cuts at runs of
  them.\<close>

definition is_space :: "char \<Rightarrow> bool" where
  "is_space c \<longleftrightarrow>
     c \<in> set [CHR 0x20, CHR 0x09, CHR 0x0A, CHR 0x0B, CHR 0x0C, CHR 0x0D,
               CHR 0x1C, CHR 0x1D, CHR 0x1E, CHR 0x1F]"

definition is_upper :: "char \<Rightarrow> bool" where
  "is_upper c \<longleftrightarrow> 65 \<le> (of_char c :: nat) \<and> (of_char c :: nat) \<le> 90"

definition lower_char :: "char \<Rightarrow> char" where
  "lower_char c = (if is_upper c then char_of ((of_char c :: nat) + 32) else c)"

definition py_lower :: "string \<Rightarrow> string" where
  "py_lower s = map lower_char s"

text \<open>\<^verbatim>\<open>s.split()\<close>: the maximal runs of non-whitespace characters, in order. The first
  argument is the word being read.\<close>

fun split_acc :: "string \<Rightarrow> string \<Rightarrow> string list" where
  "split_acc w [] = (if w = [] then [] else [w])"
| "split_acc w (c # cs) =
     (if is_space c then (if w = [] then split_acc [] cs else w # split_acc [] cs)
      else split_acc (w @ [c]) cs)"

definition py_split :: "string \<Rightarrow> string list" where
  "py_split s = split_acc [] s"

text \<open>\<^verbatim>\<open>s.split('\n')\<close>: the lines of a text (always at least one).\<close>

fun lines_acc :: "string \<Rightarrow> string \<Rightarrow> string list" where
  "lines_acc w [] = [w]"
| "lines_acc w (c # cs) =
     (if c = CHR 0x0A then w # lines_acc [] cs else lines_acc (w @ [c]) cs)"

definition py_lines :: "string \<Rightarrow> string list" where
  "py_lines s = lines_acc [] s"

text \<open>\<^verbatim>\<open>s.startswith(p)\<close> and the substring test \<^verbatim>\<open>p in s\<close>.\<close>

fun starts_with :: "string \<Rightarrow> string \<Rightarrow> bool" where
  "starts_with [] s = True"
| "starts_with (p # ps) [] = False"
| "starts_with (p # ps) (c # cs) = (p = c \<and> starts_with ps cs)"

fun py_in :: "string \<Rightarrow> string \<Rightarrow> bool" where
  "py_in p [] = (p = [])"
| "py_in p (c # cs) = (starts_with p (c # cs) \<or> py_in p cs)"

text \<open>The decimal digits of a natural number, as an f-string prints an \<^verbatim>\<open>int\<close>.\<close>

function str_of_nat :: "nat \<Rightarrow> string" where
  "str_of_nat n =
     (if n < 10 then [char_of (48 + n)] else str_of_nat (n div 10) @ [char_of (48 + n mod 10)])"
  by pat_completeness auto
termination
  by (relation "measure id") auto

declare str_of_nat.simps [simp del]

text \<open>\<^verbatim>\<open>sep.join(xs)\<close>.\<close>

fun py_join :: "string \<Rightarrow> string list \<Rightarrow> string" where
  "py_join sep [] = []"
| "py_join sep [x] = x"
| "py_join sep (x # y # ys) = x @ sep @ py_join sep (y # ys)"

section \<open>Context validation agent\<close>

subsection \<open>Sections\<close>

text \<open>The dataclass \<^verbatim>\<open>DLDSection\<close>.\<close>

record DLDSection =
  title :: string
  content :: string
  section_type :: string
  confidence :: real
  extracted_entities :: "string list"

subsection \<open>\<^verbatim>\<open>_calculate_content_similarity\<close>\<close>

definition calculate_content_similarity :: "string \<Rightarrow> string \<Rightarrow> real" where
  "calculate_content_similarity content1 content2 =
     (let words1 = set (py_split (py_lower content1));
          words2 = set (py_split (py_lower content2))
      in if words1 = {} \<or> words2 = {} then 0.0
         else let intersection = card (words1 \<inter> words2);
                  union = card (words1 \<union> words2)
              in if union > 0 then real intersection / real union else 0.0)"

subsection \<open>\<^verbatim>\<open>_merge_sections\<close>\<close>

text \<open>
  \<^verbatim>\<open>DLDSection\<close> is declared with \<^verbatim>\<open>@dataclass\<close>. \<^verbatim>\<open>_replace\<close> is a method of named tuples;
  a dataclass instance has no such attribute, so the attribute lookup in
  \<^verbatim>\<open>section._replace(title=new_title)\<close> raises \<^verbatim>\<open>AttributeError\<close> before any call is made.
\<close>

definition section_replace_title :: "DLDSection \<Rightarrow> string \<Rightarrow> py_error + DLDSection" where
  "section_replace_title section new_title =
     Inl (AttributeError (
       [CHR 0x27] @ ''DLDSection'' @ [CHR 0x27] @ '' object has no attribute '' @
       [CHR 0x27] @ ''_replace'' @ [CHR 0x27]))"

text \<open>\<^verbatim>\<open>list(set(xs))\<close>: the distinct elements of \<open>xs\<close>. Python leaves their order open; the
  model keeps the order of \<^const>\<open>remdups\<close>.\<close>

definition list_of_set :: "string list \<Rightarrow> string list" where
  "list_of_set xs = remdups xs"

text \<open>The section stored when two sections of one type are similar (lines 503--509).\<close>

definition merged_section :: "string \<Rightarrow> DLDSection \<Rightarrow> DLDSection \<Rightarrow> DLDSection" where
  "merged_section key existing section =
     \<lparr> title = (if length (title existing) > length (title section)
                 then title existing else title section),
       content = content existing @ [CHR 0x0A, CHR 0x0A] @ content section,
       section_type = key,
       confidence = max (confidence existing) (confidence section),
       extracted_entities =
         list_of_set (extracted_entities existing @ extracted_entities section) \<rparr>"

text \<open>One iteration of the loop over \<^verbatim>\<open>sections\<close>; \<open>merged\<close> is the dict built so far.\<close>

definition merge_step ::
  "(string \<times> DLDSection) list \<Rightarrow> DLDSection \<Rightarrow> py_error + (string \<times> DLDSection) list" where
  "merge_step merged section =
     (let key = section_type section in
      case map_of merged key of
        Some existing \<Rightarrow>
          if calculate_content_similarity (content existing) (content section) > 0.7
          then Inr (AList.update key (merged_section key existing section) merged)
          else (let new_title = title section @ '' (Alternative)'' in
                case section_replace_title section new_title of
                  Inl e \<Rightarrow> Inl e
                | Inr alt \<Rightarrow> Inr (AList.update (key @ ''_alt'') alt merged))
      | None \<Rightarrow> Inr (AList.update key section merged))"

fun merge_loop ::
  "(string \<times> DLDSection) list \<Rightarrow> DLDSection list \<Rightarrow> py_error + (string \<times> DLDSection) list" where
  "merge_loop merged [] = Inr merged"
| "merge_loop merged (section # rest) =
     (case merge_step merged section of
        Inl e \<Rightarrow> Inl e
      | Inr merged' \<Rightarrow> merge_loop merged' rest)"

definition merge_sections :: "DLDSection list \<Rightarrow> py_error + DLDSection list" where
  "merge_sections sections =
     (case merge_loop [] sections of
        Inl e \<Rightarrow> Inl e
      | Inr merged \<Rightarrow> Inr (map snd merged))"

subsection \<open>Regular expressions\<close>

text \<open>
  The agents call Python's \<^verbatim>\<open>re\<close> module. Its matching is not re-implemented here: a pattern is
  named by a constructor of \<open>regex\<close>, and the engine is a parameter
  \<open>re :: regex \<Rightarrow> string \<Rightarrow> nat\<close> that gives, for a pattern and a text, the number of
  non-overlapping matches (\<^verbatim>\<open>len(re.findall(p, text, flags))\<close>); \<^verbatim>\<open>re.search\<close> succeeds exactly when
  that number is positive. Every theorem below holds for every engine.

  \<^item> \<open>WordBounded s\<close>: \<^verbatim>\<open>r'\b' + re.escape(s) + r'\b'\<close>
  \<^item> \<open>MarkdownHeader n\<close>: \<^verbatim>\<open>f'#{1,6}\\s*{n}'\<close>, flags \<^verbatim>\<open>IGNORECASE | MULTILINE\<close>
  \<^item> \<open>ColonSection n\<close>: \<^verbatim>\<open>f'\\b{n}\\b.*:'\<close>, same flags
  \<^item> \<open>Keyword s\<close>: an entry of \<^verbatim>\<open>domain_patterns["5g_keywords"]\<close> used as a pattern
  \<^item> \<open>InterfaceNames\<close>, \<open>ProtocolNames\<close>, \<open>FrequencyRanges\<close>, \<open>ArchitectureModes\<close>: the four
    entries of \<^verbatim>\<open>domain_patterns["protocol_patterns"]\<close>, in order
  \<^item> \<open>FrequencyUnit\<close>, \<open>BandwidthUnit\<close>, \<open>LatencyUnit\<close>, \<open>PowerUnit\<close>, \<open>PercentUnit\<close>: the five
    entries of \<^verbatim>\<open>domain_patterns["technical_units"]\<close>, in order

  Every entry of \<^verbatim>\<open>domain_patterns\<close> is a \<^verbatim>\<open>str\<close>, so the test \<^verbatim>\<open>isinstance(pattern, str)\<close>
  always holds and these patterns are matched with \<^verbatim>\<open>IGNORECASE\<close>.
\<close>

datatype regex =
    WordBounded string
  | MarkdownHeader string
  | ColonSection string
  | Keyword string
  | InterfaceNames | ProtocolNames | FrequencyRanges | ArchitectureModes
  | FrequencyUnit | BandwidthUnit | LatencyUnit | PowerUnit | PercentUnit

type_synonym regex_engine = "regex \<Rightarrow> string \<Rightarrow> nat"

definition re_search :: "regex_engine \<Rightarrow> regex \<Rightarrow> string \<Rightarrow> bool" where
  "re_search re p text \<longleftrightarrow> re p text > 0"

subsection \<open>Required sections and coverage\<close>

record section_info =
  section_keywords :: "string list"
  weight :: real

text \<open>\<^verbatim>\<open>self.required_sections\<close>, in declaration order.\<close>

definition required_sections :: "(string \<times> section_info) list" where
  "required_sections =
     [(''system_overview'',
         \<lparr>section_keywords = [''system'', ''overview'', ''architecture'', ''topology''], weight = 0.2\<rparr>),
      (''requirements'',
         \<lparr>section_keywords = [''requirements'', ''specifications'', ''constraints''], weight = 0.25\<rparr>),
      (''interfaces'',
         \<lparr>section_keywords = [''interface'', ''protocol'', ''api'', ''connectivity''], weight = 0.2\<rparr>),
      (''performance'',
         \<lparr>section_keywords = [''performance'', ''kpi'', ''latency'', ''throughput'', ''capacity''],
          weight = 0.15\<rparr>),
      (''security'',
         \<lparr>section_keywords = [''security'', ''authentication'', ''encryption'', ''access''],
          weight = 0.1\<rparr>),
      (''implementation'',
         \<lparr>section_keywords = [''implementation'', ''deployment'', ''configuration''], weight = 0.1\<rparr>)]"

text \<open>\<^verbatim>\<open>self.domain_entities\<close>.\<close>

definition domain_entities_catalog :: "(string \<times> string list) list" where
  "domain_entities_catalog =
     [(''network_functions'',
         [''AMF'', ''SMF'', ''UPF'', ''PCF'', ''AUSF'', ''UDM'', ''NRF'', ''NSSF'']),
      (''interfaces'',
         [''N1'', ''N2'', ''N3'', ''N4'', ''N6'', ''N8'', ''N11'', ''N15'', ''N22'', ''Xn'', ''F1'']),
      (''protocols'', [''NAS'', ''NGAP'', ''PFCP'', ''HTTP/2'', ''SBI'', ''SCTP'', ''GTP'']),
      (''frequency_bands'',
         [''FR1'', ''FR2'', ''sub6'', ''mmWave'', ''n1'', ''n3'', ''n7'', ''n28'', ''n78'']),
      (''technologies'',
         [''5G NR'', ''LTE'', ''NSA'', ''SA'', ''MIMO'', ''beamforming'', ''carrier aggregation''])]"

text \<open>The dict returned by \<^verbatim>\<open>_analyze_dld_structure\<close>.\<close>

record structure_result =
  sections :: "DLDSection list"
  domain_entities :: "(string \<times> string list) list"
  document_stats :: "(string \<times> nat) list"

text \<open>The dict returned by \<^verbatim>\<open>_detect_missing_information\<close>.\<close>

record missing_info =
  missing_sections :: "string list"
  missing_weight :: real
  coverage_score :: real

text \<open>The dict returned by \<^verbatim>\<open>_verify_consistency\<close>.\<close>

record consistency_result =
  inconsistencies :: "string list"
  consistency_score :: real
  frequency_analysis :: "(string \<times> nat) list"

text \<open>
  \<^verbatim>\<open>_extract_domain_entities\<close>: a class enters the result only with the entities found for it,
  and only when at least one was found.
\<close>

definition found_entities_of :: "regex_engine \<Rightarrow> string \<Rightarrow> string list \<Rightarrow> string list" where
  "found_entities_of re content_lower entities =
     filter (\<lambda>entity. re_search re (WordBounded (py_lower entity)) content_lower) entities"

definition extract_domain_entities :: "regex_engine \<Rightarrow> string \<Rightarrow> (string \<times> string list) list" where
  "extract_domain_entities re dld_content =
     (let content_lower = py_lower dld_content in
      filter (\<lambda>(entity_type, found). found \<noteq> [])
        (map (\<lambda>(entity_type, entities). (entity_type, found_entities_of re content_lower entities))
           domain_entities_catalog))"

text \<open>
  \<^verbatim>\<open>_detect_missing_information\<close>. \<^verbatim>\<open>list(required_sections - found_sections)\<close> is taken in
  declaration order (Python leaves the order of a set open; the sum does not depend on it in
  exact arithmetic). The weight of a missing type is looked up in the table the name came from,
  so the lookup cannot fail.
\<close>

definition detect_missing_information :: "structure_result \<Rightarrow> missing_info" where
  "detect_missing_information sr =
     (let found_sections = set (map section_type (sections sr));
          missing = filter (\<lambda>(name, info). name \<notin> found_sections) required_sections;
          missing_weight = sum_list (map (\<lambda>(name, info). weight info) missing)
      in \<lparr> missing_sections = map fst missing,
           missing_weight = missing_weight,
           coverage_score = 1.0 - missing_weight \<rparr>)"

text \<open>\<^verbatim>\<open>_calculate_overall_validity\<close>.\<close>

definition calculate_overall_validity ::
  "structure_result \<Rightarrow> missing_info \<Rightarrow> consistency_result \<Rightarrow> bool" where
  "calculate_overall_validity sr mi cr =
     (let coverage = coverage_score mi;
          consistency = consistency_score cr;
          has_domain_entities = length (domain_entities sr) > 0
      in coverage \<ge> 0.7 \<and> consistency \<ge> 0.7 \<and> has_domain_entities)"


definition spec_required_types :: "string set" where
  "spec_required_types =
     {''system_overview'', ''requirements'', ''interfaces'', ''performance'', ''security'',
      ''implementation''}"

section \<open>Code quality agent\<close>

subsection \<open>Data\<close>

datatype QualityMetric =
    COMPLETENESS | TECHNICAL_ACCURACY | CURSOR_AI_COMPATIBILITY
  | CLARITY | SPECIFICITY | ACTIONABILITY

fun metric_value :: "QualityMetric \<Rightarrow> string" where
  "metric_value COMPLETENESS = ''completeness''"
| "metric_value TECHNICAL_ACCURACY = ''technical_accuracy''"
| "metric_value CURSOR_AI_COMPATIBILITY = ''cursor_ai_compatibility''"
| "metric_value CLARITY = ''clarity''"
| "metric_value SPECIFICITY = ''specificity''"
| "metric_value ACTIONABILITY = ''actionability''"

record QualityAssessment =
  metric :: QualityMetric
  score :: real
  details :: string
  suggestions :: "string list"

record ValidationResult =
  overall_score :: real
  assessments :: "QualityAssessment list"
  is_valid :: bool
  critical_issues :: "string list"
  improvement_suggestions :: "string list"

text \<open>
  An entry of \<^verbatim>\<open>dld_context["sections"]\<close>: a dict read with \<^verbatim>\<open>.get("title", "")\<close> and
  \<^verbatim>\<open>.get("content", "")\<close>; \<open>None\<close> is an absent key. In \<open>dld_context\<close>, \<open>None\<close> is an absent
  \<^verbatim>\<open>"sections"\<close> key.
\<close>

record ref_section =
  ref_title :: "string option"
  ref_content :: "string option"

record dld_context =
  ctx_sections :: "ref_section list option"

text \<open>The part of \<^verbatim>\<open>CodeQualityAgent\<close>'s instance state that carries thresholds
  (\<^verbatim>\<open>self.quality_thresholds = config.quality_thresholds\<close>).\<close>

record CodeQualityAgent =
  quality_thresholds :: "(string \<times> real) list"

text \<open>
  What the agent takes from outside itself: the regular-expression engine, the percent
  format of f-strings (\<^verbatim>\<open>{x:.2%}\<close>), and the five assessments other than
  completeness (\<^verbatim>\<open>_confirm_technical_accuracy\<close>, \<^verbatim>\<open>_verify_cursor_ai_compatibility\<close>,
  \<^verbatim>\<open>_assess_clarity\<close>, \<^verbatim>\<open>_assess_specificity\<close>, \<^verbatim>\<open>_assess_actionability\<close>). The latter are
  computed from regular-expression matches on the prompt; here each is a function that
  returns an assessment or raises, and the theorems hold for all such functions.
\<close>

record py_env =
  re_count :: regex_engine
  fmt_percent :: "real \<Rightarrow> string"
  confirm_technical_accuracy :: "string \<Rightarrow> dld_context \<Rightarrow> py_error + QualityAssessment"
  verify_cursor_ai_compatibility :: "string \<Rightarrow> py_error + QualityAssessment"
  assess_clarity :: "string \<Rightarrow> py_error + QualityAssessment"
  assess_specificity :: "string \<Rightarrow> py_error + QualityAssessment"
  assess_actionability :: "string \<Rightarrow> py_error + QualityAssessment"

subsection \<open>Helper methods\<close>

definition is_lower :: "char \<Rightarrow> bool" where
  "is_lower c \<longleftrightarrow> 97 \<le> (of_char c :: nat) \<and> (of_char c :: nat) \<le> 122"

definition upper_char :: "char \<Rightarrow> char" where
  "upper_char c = (if is_lower c then char_of ((of_char c :: nat) - 32) else c)"

definition py_upper :: "string \<Rightarrow> string" where
  "py_upper s = map upper_char s"

text \<open>
  The third pattern of \<^verbatim>\<open>_has_section\<close>, \<^verbatim>\<open>f'^{section_name.upper()}'\<close> under
  \<^verbatim>\<open>IGNORECASE | MULTILINE\<close>, is a literal anchored at the start of a line: it matches exactly
  when some line of the prompt starts with the name, case ignored.
\<close>

definition line_starts_with :: "string \<Rightarrow> string \<Rightarrow> bool" where
  "line_starts_with pat prompt \<longleftrightarrow>
     (\<exists>ln \<in> set (py_lines prompt). starts_with (py_lower pat) (py_lower ln))"

text \<open>\<^verbatim>\<open>_has_section\<close>: the three patterns are tried in order; any match gives True.\<close>

definition has_section :: "regex_engine \<Rightarrow> string \<Rightarrow> string \<Rightarrow> bool" where
  "has_section re prompt section_name \<longleftrightarrow>
     re_search re (MarkdownHeader section_name) prompt
     \<or> re_search re (ColonSection section_name) prompt
     \<or> line_starts_with (py_upper section_name) prompt"

text \<open>\<^verbatim>\<open>_prompt_addresses_section\<close>.\<close>

definition prompt_addresses_section :: "string \<Rightarrow> string \<Rightarrow> string \<Rightarrow> bool" where
  "prompt_addresses_section prompt section_title section_content =
     (let words = py_split section_title @ take 10 (py_split section_content);
          kws = map py_lower (filter (\<lambda>word. length word > 3) words);
          prompt_lower = py_lower prompt;
          matches = length (filter (\<lambda>keyword. py_in keyword prompt_lower) kws)
      in real matches \<ge> max 2 (real (length kws) * 0.3))"

text \<open>
  \<^verbatim>\<open>self.domain_patterns\<close> together with the \<^verbatim>\<open>weights\<close> dict of \<^verbatim>\<open>_assess_domain_coverage\<close>
  (the two are keyed alike): category, weight, patterns.
\<close>

definition domain_patterns :: "(string \<times> real \<times> regex list) list" where
  "domain_patterns =
     [(''5g_keywords'', 0.4,
         map Keyword
           [''gNodeB'', ''5G NR'', ''5GC'', ''AMF'', ''SMF'', ''UPF'', ''NGAP'', ''NAS'',
            ''RRC'', ''PDCP'', ''RLC'', ''MAC'', ''PHY'', ''beamforming'', ''MIMO'',
            ''carrier aggregation'', ''network slicing'', ''latency'', ''URLLC'']),
      (''protocol_patterns'', 0.3,
         [InterfaceNames, ProtocolNames, FrequencyRanges, ArchitectureModes]),
      (''technical_units'', 0.3,
         [FrequencyUnit, BandwidthUnit, LatencyUnit, PowerUnit, PercentUnit])]"

text \<open>\<^verbatim>\<open>_assess_domain_coverage\<close>.\<close>

definition category_score :: "regex_engine \<Rightarrow> string \<Rightarrow> regex list \<Rightarrow> real" where
  "category_score re prompt patterns =
     (let found_count = sum_list (map (\<lambda>p. re p prompt) patterns);
          expected_count = length patterns * 2
      in min (real found_count / real expected_count) 1.0)"

definition assess_domain_coverage :: "regex_engine \<Rightarrow> string \<Rightarrow> real" where
  "assess_domain_coverage re prompt =
     sum_list (map (\<lambda>(category, w, patterns). category_score re prompt patterns * w)
                 domain_patterns)"

subsection \<open>\<^verbatim>\<open>_verify_prompt_completeness\<close>\<close>

definition required_markers :: "string list" where
  "required_markers = [''context'', ''requirements'', ''constraints'', ''task'']"

text \<open>The first loop: the markers found, each adding 0.2 to the score.\<close>

definition found_markers :: "regex_engine \<Rightarrow> string \<Rightarrow> string list" where
  "found_markers re prompt = filter (has_section re prompt) required_markers"

definition marker_score :: "regex_engine \<Rightarrow> string \<Rightarrow> real" where
  "marker_score re prompt = sum_list (map (\<lambda>m. 0.2) (found_markers re prompt))"

text \<open>The second block: \<^verbatim>\<open>coverage_ratio\<close> is assigned only when there is at least one reference
  section; \<open>None\<close> is the unassigned local. Reading it unassigned, in the test
  \<^verbatim>\<open>coverage_ratio < 0.8\<close> near the end of the method, raises \<^verbatim>\<open>UnboundLocalError\<close>. The
  missing markers of the first suggestion are listed in the order of the required ones
  (Python joins a set, whose order is open).\<close>

definition covered_requirements :: "string \<Rightarrow> ref_section list \<Rightarrow> nat" where
  "covered_requirements prompt dld_sections =
     length (filter (\<lambda>sec.
        prompt_addresses_section prompt
          (py_lower (case ref_title sec of None \<Rightarrow> [] | Some t \<Rightarrow> t))
          (py_lower (case ref_content sec of None \<Rightarrow> [] | Some c \<Rightarrow> c))) dld_sections)"

definition coverage_ratio :: "string \<Rightarrow> ref_section list \<Rightarrow> real option" where
  "coverage_ratio prompt dld_sections =
     (let total_requirements = length dld_sections in
      if total_requirements > 0
      then Some (real (covered_requirements prompt dld_sections) / real total_requirements)
      else None)"

definition verify_prompt_completeness ::
  "py_env \<Rightarrow> string \<Rightarrow> dld_context \<Rightarrow> py_error + QualityAssessment" where
  "verify_prompt_completeness env prompt ctx =
     (let found = found_markers (re_count env) prompt;
          score1 = marker_score (re_count env) prompt;
          details1 = [''Found sections: '' @ py_join '', '' found];
          dld_sections = (case ctx_sections ctx of None \<Rightarrow> [] | Some ss \<Rightarrow> ss);
          ratio = coverage_ratio prompt dld_sections;
          score2 = (case ratio of None \<Rightarrow> score1 | Some r \<Rightarrow> score1 + r * 0.4);
          details2 = (case ratio of None \<Rightarrow> details1
            | Some r \<Rightarrow> details1 @
                [''Requirement coverage: '' @
                 str_of_nat (covered_requirements prompt dld_sections) @ ''/'' @
                 str_of_nat (length dld_sections) @ '' ('' @ fmt_percent env r @ '')'']);
          domain_coverage = assess_domain_coverage (re_count env) prompt;
          score3 = score2 + domain_coverage * 0.2;
          details3 = details2 @ [''5G domain coverage: '' @ fmt_percent env domain_coverage];
          missing = filter (\<lambda>m. m \<notin> set found) required_markers;
          suggestions1 =
            (if missing \<noteq> [] then [''Add missing sections: '' @ py_join '', '' missing]
             else [])
      in case ratio of
           None \<Rightarrow> Inl (UnboundLocalError ''coverage_ratio'')
         | Some r \<Rightarrow>
             Inr \<lparr> metric = COMPLETENESS,
                   score = min score3 1.0,
                   details = py_join ''; '' details3,
                   suggestions = suggestions1
                     @ (if r < 0.8 then [''Increase coverage of DLD requirements''] else [])
                     @ (if domain_coverage < 0.6
                        then [''Include more 5G-specific technical details''] else []) \<rparr>)"

subsection \<open>Aggregation\<close>

text \<open>The \<^verbatim>\<open>weights\<close> dict of \<^verbatim>\<open>_calculate_overall_score\<close>. It has an entry for each of the six
  metrics, so the default of \<^verbatim>\<open>weights.get(metric, 0.1)\<close> is never taken.\<close>

fun metric_weight :: "QualityMetric \<Rightarrow> real" where
  "metric_weight COMPLETENESS = 0.25"
| "metric_weight TECHNICAL_ACCURACY = 0.25"
| "metric_weight CURSOR_AI_COMPATIBILITY = 0.20"
| "metric_weight CLARITY = 0.10"
| "metric_weight SPECIFICITY = 0.10"
| "metric_weight ACTIONABILITY = 0.10"

definition calculate_overall_score :: "QualityAssessment list \<Rightarrow> real" where
  "calculate_overall_score all_assessments =
     (if all_assessments = [] then 0.0
      else let total_score =
                 sum_list (map (\<lambda>a. score a * metric_weight (metric a)) all_assessments);
               total_weight = sum_list (map (\<lambda>a. metric_weight (metric a)) all_assessments)
           in if total_weight > 0 then total_score / total_weight else 0.0)"

definition identify_critical_issues :: "QualityAssessment list \<Rightarrow> string list" where
  "identify_critical_issues all_assessments =
     map (\<lambda>a. ''Critical issue in '' @ metric_value (metric a) @ '': '' @ details a)
       (filter (\<lambda>a. score a < 0.5) all_assessments)"

text \<open>Duplicates are dropped, the first occurrence is kept.\<close>

fun unique_in_order :: "string list \<Rightarrow> string list \<Rightarrow> string list" where
  "unique_in_order seen [] = []"
| "unique_in_order seen (x # xs) =
     (if x \<in> set seen then unique_in_order seen xs else x # unique_in_order (x # seen) xs)"

definition generate_improvement_suggestions :: "QualityAssessment list \<Rightarrow> string list" where
  "generate_improvement_suggestions all_assessments =
     unique_in_order [] (concat (map suggestions all_assessments))"

subsection \<open>\<^verbatim>\<open>validate_prompt\<close>\<close>

text \<open>The dict returned by \<^verbatim>\<open>validate_prompt\<close>; \<open>None\<close> is an absent key (or the value
  \<^verbatim>\<open>None\<close> of \<^verbatim>\<open>"validation_result"\<close> on failure).\<close>

record prompt_response =
  success :: bool
  error :: "string option"
  quality_score :: real
  validation_result :: "ValidationResult option"
  detailed_scores :: "(string \<times> real) list option"
  recommendations :: "string list option"

text \<open>The body of the \<^verbatim>\<open>try\<close> block up to the list of the six assessments; the first exception
  ends it.\<close>

definition collect_assessments ::
  "py_env \<Rightarrow> string \<Rightarrow> dld_context \<Rightarrow> py_error + QualityAssessment list" where
  "collect_assessments env generated_prompt ctx =
     (case verify_prompt_completeness env generated_prompt ctx of Inl e \<Rightarrow> Inl e
      | Inr completeness_assessment \<Rightarrow>
     (case confirm_technical_accuracy env generated_prompt ctx of Inl e \<Rightarrow> Inl e
      | Inr accuracy_assessment \<Rightarrow>
     (case verify_cursor_ai_compatibility env generated_prompt of Inl e \<Rightarrow> Inl e
      | Inr compatibility_assessment \<Rightarrow>
     (case assess_clarity env generated_prompt of Inl e \<Rightarrow> Inl e
      | Inr clarity_assessment \<Rightarrow>
     (case assess_specificity env generated_prompt of Inl e \<Rightarrow> Inl e
      | Inr specificity_assessment \<Rightarrow>
     (case assess_actionability env generated_prompt of Inl e \<Rightarrow> Inl e
      | Inr actionability_assessment \<Rightarrow>
          Inr [completeness_assessment, accuracy_assessment, compatibility_assessment,
               clarity_assessment, specificity_assessment, actionability_assessment]))))))"

definition validate_prompt ::
  "CodeQualityAgent \<Rightarrow> py_env \<Rightarrow> string \<Rightarrow> dld_context \<Rightarrow> real \<Rightarrow> prompt_response" where
  "validate_prompt self env generated_prompt ctx quality_threshold =
     (case collect_assessments env generated_prompt ctx of
        Inr all_assessments \<Rightarrow>
          (let overall = calculate_overall_score all_assessments;
               vr = \<lparr> overall_score = overall,
                      assessments = all_assessments,
                      is_valid = (overall \<ge> quality_threshold),
                      critical_issues = identify_critical_issues all_assessments,
                      improvement_suggestions =
                        generate_improvement_suggestions all_assessments \<rparr>
           in \<lparr> success = True,
                error = None,
                quality_score = overall,
                validation_result = Some vr,
                detailed_scores =
                  Some (fold (\<lambda>a d. AList.update (metric_value (metric a)) (score a) d)
                          all_assessments []),
                recommendations = Some (improvement_suggestions vr) \<rparr>)
      | Inl e \<Rightarrow>
          \<lparr> success = False,
            error = Some (error_str e),
            quality_score = 0.0,
            validation_result = None,
            detailed_scores = None,
            recommendations = None \<rparr>)"

section \<open>Master agent\<close>

subsection \<open>Dynamically typed values\<close>








subsection \<open>The agent and its collaborators\<close>





subsection \<open>The \<^verbatim>\<open>_execute_*\<close> methods\<close>







subsection \<open>\<^verbatim>\<open>_create_error_response\<close> and \<^verbatim>\<open>get_pipeline_status\<close>\<close>



subsection \<open>\<^verbatim>\<open>process_dld\<close>\<close>











subsection \<open>Shapes of the final result\<close>




section \<open>Example inputs\<close>

text \<open>Three sections classified as requirements: the second repeats the words of the first,
  the third shares no word with it.\<close>

definition requirements_header :: DLDSection where
  "requirements_header =
     \<lparr> title = ''Requirements'', content = ''the system shall support handover'',
       section_type = ''requirements'', confidence = 0.8,
       extracted_entities = [''AMF'', ''SMF''] \<rparr>"

definition requirements_keyword :: DLDSection where
  "requirements_keyword =
     \<lparr> title = ''Extracted Requirements'', content = ''The system shall support handover'',
       section_type = ''requirements'', confidence = 0.6,
       extracted_entities = [''SMF'', ''UPF''] \<rparr>"

definition requirements_other :: DLDSection where
  "requirements_other =
     \<lparr> title = ''Constraints'', content = ''latency below one millisecond'',
       section_type = ''requirements'', confidence = 0.6,
       extracted_entities = [] \<rparr>"


text \<open>A structure with a section of each required type and one entity class found, a
  structure with neither, and a consistency result without findings.\<close>

definition complete_structure :: structure_result where
  "complete_structure =
     \<lparr> sections = map (\<lambda>t. \<lparr> title = t, content = ''text'', section_type = t,
                                confidence = 0.6, extracted_entities = [] \<rparr>)
                    [''system_overview'', ''requirements'', ''interfaces'', ''performance'',
                     ''security'', ''implementation''],
       domain_entities = [(''protocols'', [''NAS''])],
       document_stats = [] \<rparr>"

definition bare_structure :: structure_result where
  "bare_structure =
     \<lparr> sections = [\<lparr> title = ''Section 1'', content = ''text'', section_type = ''general'',
                       confidence = 0.4, extracted_entities = [] \<rparr>],
       domain_entities = [],
       document_stats = [] \<rparr>"

definition consistent :: consistency_result where
  "consistent = \<lparr> inconsistencies = [], consistency_score = 1.0, frequency_analysis = [] \<rparr>"

text \<open>
  A prompt of four lines, each the name of one of the required markers. It contains no
  character \<^verbatim>\<open>#\<close> or \<^verbatim>\<open>:\<close>, no digit and none of the domain keywords, so Python's engine finds
  no match in it for any pattern kept in \<open>regex\<close>; \<open>no_match_engine\<close> is the engine
  restricted to such texts. The five assessments of \<open>example_env\<close> carry the scores the
  agent computes for this prompt (technical accuracy \<open>0.8 * 0.5\<close>, clarity at its base 0.8,
  the three others 0), with details and suggestions left empty. The percent format is the
  one of the value 0.
\<close>

definition four_markers_prompt :: string where
  "four_markers_prompt =
     ''context'' @ [CHR 0x0A] @ ''requirements'' @ [CHR 0x0A] @ ''constraints'' @
     [CHR 0x0A] @ ''task''"

definition no_match_engine :: regex_engine where
  "no_match_engine p t = 0"

definition fixed_assessment :: "QualityMetric \<Rightarrow> real \<Rightarrow> QualityAssessment" where
  "fixed_assessment m s = \<lparr> metric = m, score = s, details = [], suggestions = [] \<rparr>"

definition example_env :: py_env where
  "example_env =
     \<lparr> re_count = no_match_engine,
       fmt_percent = (\<lambda>r. ''0.00%''),
       confirm_technical_accuracy = (\<lambda>p c. Inr (fixed_assessment TECHNICAL_ACCURACY 0.4)),
       verify_cursor_ai_compatibility =
         (\<lambda>p. Inr (fixed_assessment CURSOR_AI_COMPATIBILITY 0.0)),
       assess_clarity = (\<lambda>p. Inr (fixed_assessment CLARITY 0.8)),
       assess_specificity = (\<lambda>p. Inr (fixed_assessment SPECIFICITY 0.0)),
       assess_actionability = (\<lambda>p. Inr (fixed_assessment ACTIONABILITY 0.0)) \<rparr>"

text \<open>The default \<^verbatim>\<open>quality_thresholds\<close> of \<^verbatim>\<open>utils/config.py\<close>.\<close>

definition example_quality_agent :: CodeQualityAgent where
  "example_quality_agent =
     \<lparr> quality_thresholds =
         [(''dld_completeness'', 0.8), (''technical_accuracy'', 0.9),
          (''prompt_effectiveness'', 0.85), (''code_quality'', 0.9)] \<rparr>"

text \<open>Reference contexts: one section that the prompt above does not address, an empty list
  of sections, and no \<^verbatim>\<open>"sections"\<close> key.\<close>

definition unaddressed_context :: dld_context where
  "unaddressed_context =
     \<lparr> ctx_sections =
         Some [\<lparr> ref_title = Some ''Handover Procedure'',
                  ref_content = Some ''signalling between cells'' \<rparr>] \<rparr>"

definition empty_context :: dld_context where
  "empty_context = \<lparr> ctx_sections = Some [] \<rparr>"

definition absent_context :: dld_context where
  "absent_context = \<lparr> ctx_sections = None \<rparr>"




section \<open>Properties of the similarity measure\<close>

lemma is_space_code: "is_space c \<Longrightarrow> (of_char c :: nat) \<le> 32"
  by (auto simp: is_space_def)

lemma is_space_lower_char: "is_space (lower_char c) \<longleftrightarrow> is_space c"
proof (cases "is_upper c")
  case False
  then show ?thesis by (simp add: lower_char_def)
next
  case True
  then have r: "65 \<le> (of_char c :: nat)" "(of_char c :: nat) \<le> 90"
    by (simp_all add: is_upper_def)
  then have "(of_char (char_of ((of_char c :: nat) + 32)) :: nat) = of_char c + 32"
    by (simp add: of_char_of)
  with r have "\<not> is_space (char_of ((of_char c :: nat) + 32))"
    using is_space_code [of "char_of ((of_char c :: nat) + 32)"] by auto
  moreover from r have "\<not> is_space c"
    using is_space_code [of c] by auto
  ultimately show ?thesis using True by (simp add: lower_char_def)
qed

lemma split_acc_Nil: "split_acc w s = [] \<longleftrightarrow> w = [] \<and> (\<forall>c\<in>set s. is_space c)"
  by (induction s arbitrary: w) auto

lemma py_split_lower_Nil: "py_split (py_lower s) = [] \<longleftrightarrow> (\<forall>c\<in>set s. is_space c)"
  by (simp add: py_split_def split_acc_Nil py_lower_def is_space_lower_char)

text \<open>
  C7, as the code has it. The similarity of two texts does not depend on their order. A text
  with at least one non-whitespace character has similarity 1 with itself. A text made of
  whitespace only (the empty text included) has no words, and the guard on empty word sets
  gives it similarity 0 with itself.
\<close>

theorem similarity_symmetric_reflexive:
  "calculate_content_similarity a b = calculate_content_similarity b a
   \<and> ((\<exists>c\<in>set a. \<not> is_space c) \<longrightarrow> calculate_content_similarity a a = 1)
   \<and> ((\<forall>c\<in>set a. is_space c) \<longrightarrow> calculate_content_similarity a a = 0)"
proof (intro conjI impI)
  show "calculate_content_similarity a b = calculate_content_similarity b a"
    by (simp add: calculate_content_similarity_def Let_def Int_commute Un_commute)
next
  assume "\<exists>c\<in>set a. \<not> is_space c"
  then have ne: "py_split (py_lower a) \<noteq> []"
    by (simp add: py_split_lower_Nil)
  then have "card (set (py_split (py_lower a))) > 0"
    by (simp add: card_gt_0_iff)
  with ne show "calculate_content_similarity a a = 1"
    by (simp add: calculate_content_similarity_def Let_def)
next
  assume "\<forall>c\<in>set a. is_space c"
  then show "calculate_content_similarity a a = 0"
    by (simp add: calculate_content_similarity_def Let_def py_split_lower_Nil)
qed

theorem similarity_symmetric_reflexive_witness:
  "calculate_content_similarity ''Alpha beta'' ''beta ALPHA gamma'' =
     calculate_content_similarity ''beta ALPHA gamma'' ''Alpha beta''
   \<and> calculate_content_similarity ''Alpha beta'' ''Alpha beta'' = 1
   \<and> calculate_content_similarity [CHR 0x20, CHR 0x0A] [CHR 0x20, CHR 0x0A] = 0"
  using similarity_symmetric_reflexive [of "''Alpha beta''" "''beta ALPHA gamma''"]
    similarity_symmetric_reflexive [of "[CHR 0x20, CHR 0x0A]" "[]"]
  by (simp add: is_space_def)

text \<open>The text of one blank is not empty, and its similarity with itself is not 1.\<close>

theorem similarity_whitespace_counterexample:
  "'' '' \<noteq> [] \<and> calculate_content_similarity '' '' '' '' \<noteq> 1"
  by (simp add: calculate_content_similarity_def py_split_def py_lower_def lower_char_def
        is_upper_def is_space_def)

section \<open>Properties of the reconciler\<close>

text \<open>
  C4. Two sections of one type whose contents have similarity above 0.7 are merged into one
  section: the contents joined by a blank line, the longer title (the second one on a tie),
  the larger confidence, hence no smaller than either, and the union of the entities without
  duplicates. The same holds for a section arriving when the dict already holds one of its
  type.
\<close>

theorem merge_similar_sections:
  assumes same: "section_type a = section_type b"
      and sim: "calculate_content_similarity (content a) (content b) > 0.7"
  shows "\<exists>m. merge_sections [a, b] = Inr [m]
           \<and> m = merged_section (section_type b) a b
           \<and> content m = content a @ [CHR 0x0A, CHR 0x0A] @ content b
           \<and> title m = (if length (title a) > length (title b) then title a else title b)
           \<and> length (title m) = max (length (title a)) (length (title b))
           \<and> confidence m = max (confidence a) (confidence b)
           \<and> confidence a \<le> confidence m \<and> confidence b \<le> confidence m
           \<and> set (extracted_entities m) =
               set (extracted_entities a) \<union> set (extracted_entities b)
           \<and> distinct (extracted_entities m)
           \<and> section_type m = section_type a
           \<and> (\<forall>merged. map_of merged (section_type b) = Some a \<longrightarrow>
                 merge_step merged b = Inr (AList.update (section_type b) m merged))"
proof -
  let ?m = "merged_section (section_type b) a b"
  have step: "merge_step merged b = Inr (AList.update (section_type b) ?m merged)"
    if "map_of merged (section_type b) = Some a" for merged
    using that sim by (simp add: merge_step_def Let_def)
  have "merge_step [] a = Inr [(section_type a, a)]"
    by (simp add: merge_step_def Let_def)
  moreover have "merge_step [(section_type a, a)] b = Inr [(section_type b, ?m)]"
    using step [of "[(section_type a, a)]"] same by simp
  ultimately have "merge_sections [a, b] = Inr [?m]"
    by (simp add: merge_sections_def)
  moreover have
    "set (extracted_entities ?m) = set (extracted_entities a) \<union> set (extracted_entities b)"
    "distinct (extracted_entities ?m)"
    by (simp_all add: merged_section_def list_of_set_def)
  moreover have "content ?m = content a @ [CHR 0x0A, CHR 0x0A] @ content b"
    "title ?m = (if length (title a) > length (title b) then title a else title b)"
    "length (title ?m) = max (length (title a)) (length (title b))"
    "confidence ?m = max (confidence a) (confidence b)"
    "confidence a \<le> confidence ?m" "confidence b \<le> confidence ?m"
    "section_type ?m = section_type a"
    using same by (simp_all add: merged_section_def)
  ultimately show ?thesis using step by blast
qed

theorem merge_similar_sections_witness:
  "merge_sections [requirements_header, requirements_keyword] =
     Inr [\<lparr> title = ''Extracted Requirements'',
            content = ''the system shall support handover'' @ [CHR 0x0A, CHR 0x0A] @
                      ''The system shall support handover'',
            section_type = ''requirements'', confidence = 0.8,
            extracted_entities = [''AMF'', ''SMF'', ''UPF''] \<rparr>]"
proof -
  have s: "calculate_content_similarity (content requirements_header)
             (content requirements_keyword) > 0.7"
    by code_simp
  have t: "section_type requirements_header = section_type requirements_keyword"
    by (simp add: requirements_header_def requirements_keyword_def)
  from merge_similar_sections [OF t s] show ?thesis
    by (simp add: merged_section_def list_of_set_def requirements_header_def
          requirements_keyword_def)
qed

text \<open>
  C5, at two sections of one type that share no word. The similarity is 0, the branch that
  keeps the new section as an alternative is taken, and the run ends there with
  \<^verbatim>\<open>AttributeError\<close>: no list of sections is returned.
\<close>

theorem merge_dissimilar_raises:
  "section_type requirements_header = section_type requirements_other
   \<and> calculate_content_similarity (content requirements_header)
        (content requirements_other) \<le> 0.7
   \<and> merge_sections [requirements_header, requirements_other] =
       Inl (AttributeError ([CHR 0x27] @ ''DLDSection'' @ [CHR 0x27] @
              '' object has no attribute '' @ [CHR 0x27] @ ''_replace'' @ [CHR 0x27]))"
proof -
  have s: "calculate_content_similarity (content requirements_header)
             (content requirements_other) = 0"
    by code_simp
  have t: "section_type requirements_header = section_type requirements_other"
    by (simp add: requirements_header_def requirements_other_def)
  have "merge_step [] requirements_header =
          Inr [(section_type requirements_header, requirements_header)]"
    by (simp add: merge_step_def Let_def)
  moreover have "merge_step [(section_type requirements_header, requirements_header)]
          requirements_other =
        Inl (AttributeError ([CHR 0x27] @ ''DLDSection'' @ [CHR 0x27] @
              '' object has no attribute '' @ [CHR 0x27] @ ''_replace'' @ [CHR 0x27]))"
    using s t by (simp add: merge_step_def Let_def section_replace_title_def)
  ultimately show ?thesis using s t by (simp add: merge_sections_def)
qed

section \<open>Properties of coverage and validity\<close>


lemma coverage_unfold:
  "coverage_score (detect_missing_information sr) =
     1 - ((if ''system_overview'' \<in> section_type ` set (sections sr) then 0 else 0.2)
        + (if ''requirements'' \<in> section_type ` set (sections sr) then 0 else 0.25)
        + (if ''interfaces'' \<in> section_type ` set (sections sr) then 0 else 0.2)
        + (if ''performance'' \<in> section_type ` set (sections sr) then 0 else 0.15)
        + (if ''security'' \<in> section_type ` set (sections sr) then 0 else 0.1)
        + (if ''implementation'' \<in> section_type ` set (sections sr) then 0 else 0.1))"
  by (simp add: detect_missing_information_def required_sections_def Let_def)




lemma extract_nonempty:
  "extract_domain_entities re txt \<noteq> [] \<longleftrightarrow>
     (\<exists>cls \<in> set domain_entities_catalog.
        \<exists>e \<in> set (snd cls). re_search re (WordBounded (py_lower e)) (py_lower txt))"
  by (simp add: extract_domain_entities_def found_entities_of_def filter_empty_conv Let_def
        case_prod_unfold)

lemma extract_classes_nonempty:
  "\<forall>(cls, found) \<in> set (extract_domain_entities re txt). found \<noteq> []"
  by (auto simp: extract_domain_entities_def Let_def)

text \<open>
  C1. A document is valid exactly when the coverage score is at least 0.7, the consistency
  score is at least 0.7 and the dict of entity classes is not empty; a class is in that dict
  exactly when one of its entities was found, so the dict is not empty exactly when some
  class has an entity in the text. Each condition that fails makes the document invalid
  whatever the other two are. A document without any required section type has coverage 0,
  and without entities it is invalid for every consistency score.
\<close>

theorem overall_validity_conjunction:
  "(calculate_overall_validity sr mi cr \<longleftrightarrow>
      coverage_score mi \<ge> 0.7 \<and> consistency_score cr \<ge> 0.7 \<and> domain_entities sr \<noteq> [])
   \<and> (extract_domain_entities re txt \<noteq> [] \<longleftrightarrow>
        (\<exists>cls \<in> set domain_entities_catalog.
           \<exists>e \<in> set (snd cls). re_search re (WordBounded (py_lower e)) (py_lower txt)))
   \<and> (\<forall>(cls, found) \<in> set (extract_domain_entities re txt). found \<noteq> [])
   \<and> (coverage_score mi < 0.7 \<longrightarrow> \<not> calculate_overall_validity sr mi cr)
   \<and> (consistency_score cr < 0.7 \<longrightarrow> \<not> calculate_overall_validity sr mi cr)
   \<and> (domain_entities sr = [] \<longrightarrow> \<not> calculate_overall_validity sr mi cr)
   \<and> (section_type ` set (sections sr) \<inter> spec_required_types = {} \<and> domain_entities sr = []
        \<longrightarrow> coverage_score (detect_missing_information sr) = 0
          \<and> \<not> calculate_overall_validity sr (detect_missing_information sr) cr)"
proof -
  have v: "calculate_overall_validity sr mi cr \<longleftrightarrow>
      coverage_score mi \<ge> 0.7 \<and> consistency_score cr \<ge> 0.7 \<and> domain_entities sr \<noteq> []"
    for sr mi cr
    by (simp add: calculate_overall_validity_def Let_def)
  have z: "coverage_score (detect_missing_information sr) = 0"
    if h: "section_type ` set (sections sr) \<inter> spec_required_types = {}"
  proof -
    let ?F = "section_type ` set (sections sr)"
    have "t \<notin> ?F" if "t \<in> spec_required_types" for t
      using h that by blast
    then have "''system_overview'' \<notin> ?F" "''requirements'' \<notin> ?F" "''interfaces'' \<notin> ?F"
      "''performance'' \<notin> ?F" "''security'' \<notin> ?F" "''implementation'' \<notin> ?F"
      by (simp_all add: spec_required_types_def)
    then show ?thesis by (simp add: coverage_unfold)
  qed
  show ?thesis
    using z by (simp add: v extract_nonempty extract_classes_nonempty)
qed

theorem overall_validity_conjunction_witness:
  "calculate_overall_validity complete_structure
     (detect_missing_information complete_structure) consistent
   \<and> \<not> calculate_overall_validity bare_structure
         (detect_missing_information bare_structure) consistent
   \<and> coverage_score (detect_missing_information bare_structure) = 0"
proof -
  have c: "coverage_score (detect_missing_information complete_structure) = 1"
    by (simp add: coverage_unfold complete_structure_def)
  have b: "section_type ` set (sections bare_structure) \<inter> spec_required_types = {}"
    "domain_entities bare_structure = []"
    by (simp_all add: bare_structure_def spec_required_types_def)
  from overall_validity_conjunction
         [of complete_structure "detect_missing_information complete_structure" consistent
             "\<lambda>p t. 0" "[]"]
       overall_validity_conjunction
         [of bare_structure "detect_missing_information bare_structure" consistent
             "\<lambda>p t. 0" "[]"]
       b c
  show ?thesis
    by (simp add: complete_structure_def consistent_def)
qed

section \<open>Properties of the quality agent\<close>

lemma marker_score_eq:
  "marker_score re prompt = 0.2 * real (length (found_markers re prompt))"
  by (simp add: marker_score_def sum_list_triv)

lemma found_markers_le: "length (found_markers re prompt) \<le> 4"
proof -
  have "length (found_markers re prompt) \<le> length required_markers"
    unfolding found_markers_def by (rule length_filter_le)
  then show ?thesis by (simp add: required_markers_def)
qed

lemma category_score_bounds:
  "0 \<le> category_score re prompt ps" "category_score re prompt ps \<le> 1"
  by (simp_all add: category_score_def Let_def)

lemma domain_coverage_bounds:
  "0 \<le> assess_domain_coverage re prompt" "assess_domain_coverage re prompt \<le> 1"
proof -
  let ?a = "category_score re prompt (snd (snd (domain_patterns ! 0)))"
  let ?b = "category_score re prompt (snd (snd (domain_patterns ! 1)))"
  let ?c = "category_score re prompt (snd (snd (domain_patterns ! 2)))"
  have e: "assess_domain_coverage re prompt = ?a * 0.4 + ?b * 0.3 + ?c * 0.3"
    by (simp add: assess_domain_coverage_def domain_patterns_def)
  have "0 \<le> ?a" "?a \<le> 1" "0 \<le> ?b" "?b \<le> 1" "0 \<le> ?c" "?c \<le> 1"
    by (rule category_score_bounds)+
  then show "0 \<le> assess_domain_coverage re prompt" "assess_domain_coverage re prompt \<le> 1"
    unfolding e by linarith+
qed

lemma coverage_ratio_bounds:
  assumes "coverage_ratio prompt ss = Some r"
  shows "0 \<le> r" "r \<le> 1" "ss \<noteq> []"
proof -
  have le: "covered_requirements prompt ss \<le> length ss"
    unfolding covered_requirements_def by (rule length_filter_le)
  from assms have ne: "ss \<noteq> []" and r: "r = real (covered_requirements prompt ss) / real (length ss)"
    by (auto simp: coverage_ratio_def Let_def split: if_splits)
  show "ss \<noteq> []" by (rule ne)
  show "0 \<le> r" by (simp add: r)
  from le ne show "r \<le> 1" by (simp add: r)
qed

lemma completeness_result:
  "verify_prompt_completeness env prompt ctx = Inr qa \<Longrightarrow>
     \<exists>r. coverage_ratio prompt (case ctx_sections ctx of None \<Rightarrow> [] | Some ss \<Rightarrow> ss) = Some r
       \<and> score qa = min (marker_score (re_count env) prompt + r * 0.4
                          + assess_domain_coverage (re_count env) prompt * 0.2) 1"
  by (auto simp: verify_prompt_completeness_def Let_def split: option.splits)

text \<open>
  C6, as the code has it. When the completeness assessment is produced, its score is the
  smaller of 1 and the sum of three parts: 0.2 for each of the four markers found, hence at
  most 0.8; 0.4 times the share of reference sections addressed, hence at most 0.4; and 0.2
  times the domain coverage, hence at most 0.2. The score lies between 0 and 1.
\<close>

theorem completeness_score_parts:
  assumes "verify_prompt_completeness env prompt ctx = Inr qa"
  shows "\<exists>r. coverage_ratio prompt (case ctx_sections ctx of None \<Rightarrow> [] | Some ss \<Rightarrow> ss) = Some r
       \<and> score qa = min (marker_score (re_count env) prompt + r * 0.4
                          + assess_domain_coverage (re_count env) prompt * 0.2) 1
       \<and> marker_score (re_count env) prompt =
           0.2 * real (length (found_markers (re_count env) prompt))
       \<and> length (found_markers (re_count env) prompt) \<le> 4
       \<and> 0 \<le> marker_score (re_count env) prompt \<and> marker_score (re_count env) prompt \<le> 0.8
       \<and> 0 \<le> r * 0.4 \<and> r * 0.4 \<le> 0.4
       \<and> 0 \<le> assess_domain_coverage (re_count env) prompt * 0.2
       \<and> assess_domain_coverage (re_count env) prompt * 0.2 \<le> 0.2
       \<and> 0 \<le> score qa \<and> score qa \<le> 1"
proof -
  let ?ss = "case ctx_sections ctx of None \<Rightarrow> [] | Some ss \<Rightarrow> ss"
  let ?m = "marker_score (re_count env) prompt"
  let ?d = "assess_domain_coverage (re_count env) prompt"
  from completeness_result [OF assms] obtain r where
    r: "coverage_ratio prompt ?ss = Some r" and s: "score qa = min (?m + r * 0.4 + ?d * 0.2) 1"
    by blast
  have rb: "0 \<le> r" "r \<le> 1" using coverage_ratio_bounds [OF r] by simp_all
  have db: "0 \<le> ?d" "?d \<le> 1" by (rule domain_coverage_bounds)+
  have n: "length (found_markers (re_count env) prompt) \<le> 4" by (rule found_markers_le)
  have me: "?m = 0.2 * real (length (found_markers (re_count env) prompt))"
    by (rule marker_score_eq)
  have mb: "0 \<le> ?m" "?m \<le> 0.8" using n unfolding me by simp_all
  have sb: "0 \<le> score qa" "score qa \<le> 1" using rb db mb unfolding s by simp_all
  show ?thesis using r s me n mb rb db sb by auto
qed

lemma example_found_markers:
  "found_markers no_match_engine four_markers_prompt =
     [''context'', ''requirements'', ''constraints'', ''task'']"
  by code_simp

lemma example_covered_requirements:
  "covered_requirements four_markers_prompt
     [\<lparr> ref_title = Some ''Handover Procedure'',
        ref_content = Some ''signalling between cells'' \<rparr>] = 0"
  by code_simp

lemma no_match_domain_coverage: "assess_domain_coverage no_match_engine p = 0"
  by (simp add: assess_domain_coverage_def domain_patterns_def category_score_def
        no_match_engine_def)

lemma str_of_nat_small: "str_of_nat 0 = ''0''" "str_of_nat (Suc 0) = ''1''"
  by code_simp+

lemma example_completeness:
  "verify_prompt_completeness example_env four_markers_prompt unaddressed_context =
     Inr \<lparr> metric = COMPLETENESS, score = 0.8,
           details = ''Found sections: context, requirements, constraints, task; '' @
                     ''Requirement coverage: 0/1 (0.00%); 5G domain coverage: 0.00%'',
           suggestions = [''Increase coverage of DLD requirements'',
                          ''Include more 5G-specific technical details''] \<rparr>"
  by (simp add: verify_prompt_completeness_def Let_def example_env_def unaddressed_context_def
        example_found_markers marker_score_def coverage_ratio_def
        example_covered_requirements no_match_domain_coverage required_markers_def
        str_of_nat_small)

theorem completeness_score_parts_witness:
  "(\<exists>qa. verify_prompt_completeness example_env four_markers_prompt unaddressed_context =
            Inr qa \<and> score qa = 0.8)
   \<and> marker_score (re_count example_env) four_markers_prompt = 0.8
   \<and> coverage_ratio four_markers_prompt
        (case ctx_sections unaddressed_context of None \<Rightarrow> [] | Some ss \<Rightarrow> ss) = Some 0"
proof -
  have m: "marker_score (re_count example_env) four_markers_prompt = 0.8"
    by (simp add: marker_score_def example_env_def example_found_markers)
  have c: "coverage_ratio four_markers_prompt
        (case ctx_sections unaddressed_context of None \<Rightarrow> [] | Some ss \<Rightarrow> ss) = Some 0"
    by (simp add: coverage_ratio_def unaddressed_context_def example_covered_requirements)
  from completeness_score_parts [OF example_completeness] example_completeness m c
  show ?thesis by simp
qed

text \<open>On the prompt of four marker lines all four markers are found, and the marker part of
  the score is 0.8.\<close>

theorem completeness_marker_counterexample:
  "found_markers no_match_engine four_markers_prompt =
     [''context'', ''requirements'', ''constraints'', ''task'']
   \<and> marker_score no_match_engine four_markers_prompt = 0.8
   \<and> \<not> marker_score no_match_engine four_markers_prompt \<le> 0.4"
  by (simp add: marker_score_def example_found_markers)

lemma validate_prompt_outcome:
  "validation_result (validate_prompt self env prompt ctx thr) = Some vr \<Longrightarrow>
     \<exists>xs. collect_assessments env prompt ctx = Inr xs
        \<and> vr = \<lparr> overall_score = calculate_overall_score xs, assessments = xs,
                  is_valid = (calculate_overall_score xs \<ge> thr),
                  critical_issues = identify_critical_issues xs,
                  improvement_suggestions = generate_improvement_suggestions xs \<rparr>
        \<and> success (validate_prompt self env prompt ctx thr)
        \<and> quality_score (validate_prompt self env prompt ctx thr) = calculate_overall_score xs"
  by (auto simp: validate_prompt_def Let_def split: sum.splits)

text \<open>
  C2. Whenever \<^verbatim>\<open>validate_prompt\<close> produces a validation result, its flag \<^verbatim>\<open>is_valid\<close> holds
  exactly when the overall score is at least the threshold passed to this call, equality
  included; when the six assessments are computed, the result is produced and its overall
  score is their weighted mean. The thresholds stored on the agent have no influence.
\<close>

theorem quality_gate_correct:
  "(\<forall>vr. validation_result (validate_prompt self env prompt ctx thr) = Some vr \<longrightarrow>
       (is_valid vr \<longleftrightarrow> overall_score vr \<ge> thr)
       \<and> quality_score (validate_prompt self env prompt ctx thr) = overall_score vr
       \<and> success (validate_prompt self env prompt ctx thr))
   \<and> (\<forall>xs. collect_assessments env prompt ctx = Inr xs \<longrightarrow>
         (\<exists>vr. validation_result (validate_prompt self env prompt ctx thr) = Some vr
            \<and> overall_score vr = calculate_overall_score xs
            \<and> (is_valid vr \<longleftrightarrow> calculate_overall_score xs \<ge> thr)))
   \<and> validate_prompt (self\<lparr>quality_thresholds := q\<rparr>) env prompt ctx thr =
       validate_prompt self env prompt ctx thr"
proof (intro conjI allI impI)
  fix vr
  assume "validation_result (validate_prompt self env prompt ctx thr) = Some vr"
  from validate_prompt_outcome [OF this]
  show "is_valid vr \<longleftrightarrow> overall_score vr \<ge> thr"
    and "quality_score (validate_prompt self env prompt ctx thr) = overall_score vr"
    and "success (validate_prompt self env prompt ctx thr)"
    by auto
next
  fix xs
  assume "collect_assessments env prompt ctx = Inr xs"
  then show "\<exists>vr. validation_result (validate_prompt self env prompt ctx thr) = Some vr
            \<and> overall_score vr = calculate_overall_score xs
            \<and> (is_valid vr \<longleftrightarrow> calculate_overall_score xs \<ge> thr)"
    by (simp add: validate_prompt_def Let_def)
next
  show "validate_prompt (self\<lparr>quality_thresholds := q\<rparr>) env prompt ctx thr =
       validate_prompt self env prompt ctx thr"
    by (simp add: validate_prompt_def)
qed

lemma example_assessments:
  "collect_assessments example_env four_markers_prompt unaddressed_context =
     Inr [\<lparr> metric = COMPLETENESS, score = 0.8,
             details = ''Found sections: context, requirements, constraints, task; '' @
                       ''Requirement coverage: 0/1 (0.00%); 5G domain coverage: 0.00%'',
             suggestions = [''Increase coverage of DLD requirements'',
                            ''Include more 5G-specific technical details''] \<rparr>,
          fixed_assessment TECHNICAL_ACCURACY 0.4,
          fixed_assessment CURSOR_AI_COMPATIBILITY 0.0,
          fixed_assessment CLARITY 0.8,
          fixed_assessment SPECIFICITY 0.0,
          fixed_assessment ACTIONABILITY 0.0]"
  by (simp add: collect_assessments_def example_completeness) (simp add: example_env_def)

theorem quality_gate_correct_witness:
  "(\<exists>vr. validation_result (validate_prompt example_quality_agent example_env
             four_markers_prompt unaddressed_context 0.38) = Some vr
         \<and> overall_score vr = 0.38 \<and> is_valid vr)
   \<and> (\<exists>vr. validation_result (validate_prompt example_quality_agent example_env
             four_markers_prompt unaddressed_context 0.8) = Some vr
         \<and> overall_score vr = 0.38 \<and> \<not> is_valid vr)"
proof -
  let ?xs = "[\<lparr> metric = COMPLETENESS, score = 0.8,
             details = ''Found sections: context, requirements, constraints, task; '' @
                       ''Requirement coverage: 0/1 (0.00%); 5G domain coverage: 0.00%'',
             suggestions = [''Increase coverage of DLD requirements'',
                            ''Include more 5G-specific technical details''] \<rparr>,
          fixed_assessment TECHNICAL_ACCURACY 0.4,
          fixed_assessment CURSOR_AI_COMPATIBILITY 0.0,
          fixed_assessment CLARITY 0.8,
          fixed_assessment SPECIFICITY 0.0,
          fixed_assessment ACTIONABILITY 0.0]"
  have o: "calculate_overall_score ?xs = 0.38"
    by (simp add: calculate_overall_score_def fixed_assessment_def)
  have g: "\<exists>vr. validation_result (validate_prompt example_quality_agent example_env
             four_markers_prompt unaddressed_context thr) = Some vr
            \<and> overall_score vr = 0.38 \<and> (is_valid vr \<longleftrightarrow> 0.38 \<ge> thr)" for thr
    using quality_gate_correct [of example_quality_agent example_env four_markers_prompt
            unaddressed_context thr] example_assessments
    unfolding o [symmetric] by blast
  from g [of "0.38"] g [of "0.8"] show ?thesis by simp
qed

text \<open>
  C10. When the reference context has an empty list of sections, or no sections key, the
  completeness assessment reads \<^verbatim>\<open>coverage_ratio\<close> unassigned; \<^verbatim>\<open>validate_prompt\<close> catches
  the exception and returns the failure dict: \<^verbatim>\<open>success\<close> false, quality score 0, no
  validation result, and the text of the exception, which is not empty.
\<close>

theorem empty_reference_sections_fail:
  assumes "ctx_sections ctx = None \<or> ctx_sections ctx = Some []"
  shows "verify_prompt_completeness env prompt ctx = Inl (UnboundLocalError ''coverage_ratio'')
       \<and> validate_prompt self env prompt ctx thr =
           \<lparr> success = False,
             error = Some (error_str (UnboundLocalError ''coverage_ratio'')),
             quality_score = 0.0,
             validation_result = None,
             detailed_scores = None,
             recommendations = None \<rparr>
       \<and> error_str (UnboundLocalError ''coverage_ratio'') \<noteq> []"
proof -
  from assms have "coverage_ratio prompt
      (case ctx_sections ctx of None \<Rightarrow> [] | Some ss \<Rightarrow> ss) = None"
    by (auto simp: coverage_ratio_def)
  then have v: "verify_prompt_completeness env prompt ctx =
      Inl (UnboundLocalError ''coverage_ratio'')"
    by (simp add: verify_prompt_completeness_def Let_def)
  then have "collect_assessments env prompt ctx = Inl (UnboundLocalError ''coverage_ratio'')"
    by (simp add: collect_assessments_def)
  then show ?thesis using v by (simp add: validate_prompt_def)
qed

theorem empty_reference_sections_fail_witness:
  "success (validate_prompt example_quality_agent example_env four_markers_prompt
              empty_context 0.8) = False
   \<and> quality_score (validate_prompt example_quality_agent example_env four_markers_prompt
              empty_context 0.8) = 0
   \<and> validation_result (validate_prompt example_quality_agent example_env four_markers_prompt
              absent_context 0.8) = None
   \<and> error (validate_prompt example_quality_agent example_env four_markers_prompt
              absent_context 0.8) =
       Some (''cannot access local variable '' @ [CHR 0x27] @ ''coverage_ratio'' @ [CHR 0x27] @
             '' where it is not associated with a value'')"
  using empty_reference_sections_fail [of empty_context example_env four_markers_prompt
          example_quality_agent "0.8"]
        empty_reference_sections_fail [of absent_context example_env four_markers_prompt
          example_quality_agent "0.8"]
  by (simp add: empty_context_def absent_context_def)

section \<open>Properties of the orchestrator\<close>




































end
